theory Spec2Isabelle
  imports Main
begin

section \<open>The authentication routes of the Malin Wallet backend\<close>

text \<open>
  A shallow embedding of \<^verbatim>\<open>src/routes/auth.ts\<close> with the in-memory
  \<^verbatim>\<open>userStore\<close> of \<^verbatim>\<open>src/services/userStore.ts\<close> and the record type of
  \<^verbatim>\<open>src/types/user.ts\<close>.

  Scope of the model.
  \<^item> A field of the JSON request body is a \<open>string option\<close>: \<open>None\<close> is an
    absent field, \<open>Some s\<close> a string. Fields of another JSON type are not modelled.
  \<^item> A JavaScript string is a list of 8-bit characters, read as the code units
    \<open>0\<close> to \<open>255\<close>. On these \<^verbatim>\<open>toLowerCase\<close> and \<^verbatim>\<open>trim\<close> are
    written out in full; strings with larger code units are not modelled.
  \<^item> \<^verbatim>\<open>bcryptjs\<close> is a library: its two functions are parameters of the handlers,
    and the random salt of \<^verbatim>\<open>bcrypt.hash\<close> is an explicit argument.
  \<^item> \<^verbatim>\<open>jsonwebtoken\<close> is a library: a token is represented by the arguments
    \<^verbatim>\<open>jwt.sign\<close> was called with.
  \<^item> \<^verbatim>\<open>generateVerificationCode\<close> lives in \<^verbatim>\<open>src/utils/random.ts\<close>, which is
    not part of the sources at hand: the code it returns is an explicit argument of
    every handler that calls it.
  \<^item> The library calls are taken to return normally. On string fields no other step
    of a handler throws, so the \<^verbatim>\<open>catch\<close> branch with its status 500 is never
    entered and has no counterpart in the model.
  \<^item> The handlers are run one at a time; interleavings of concurrent requests are
    not modelled.
\<close>

subsection \<open>Strings\<close>

text \<open>
  \<^verbatim>\<open>String.prototype.toLowerCase\<close> on code units below 256: the letters
  \<open>A\<close> to \<open>Z\<close> (65 to 90) and the Latin-1 capitals 192 to 222 without the
  multiplication sign 215 move up by 32; every other code unit maps to itself.
\<close>

definition toLowerCase_char :: "char \<Rightarrow> char" where
  "toLowerCase_char c =
     (let n = (of_char c :: nat)
      in if (65 \<le> n \<and> n \<le> 90) \<or> (192 \<le> n \<and> n \<le> 222 \<and> n \<noteq> 215)
         then char_of (n + 32) else c)"

definition toLowerCase :: "string \<Rightarrow> string" where
  "toLowerCase s = map toLowerCase_char s"

text \<open>
  The code units below 256 that \<^verbatim>\<open>String.prototype.trim\<close> strips: tab, line
  feed, vertical tab, form feed, carriage return, space and the no-break space.
\<close>

definition isWhiteSpace :: "char \<Rightarrow> bool" where
  "isWhiteSpace c = ((of_char c :: nat) \<in> {9, 10, 11, 12, 13, 32, 160})"

definition trim :: "string \<Rightarrow> string" where
  "trim s = rev (dropWhile isWhiteSpace (rev (dropWhile isWhiteSpace s)))"

text \<open>\<^verbatim>\<open>email.toLowerCase().trim()\<close>, the value the handlers call \<^verbatim>\<open>normalizedEmail\<close>.\<close>

definition normalizeEmail :: "string \<Rightarrow> string" where
  "normalizeEmail email = trim (toLowerCase email)"

text \<open>
  Truthiness of a request field: an absent field and the empty string are falsy.
  \<open>truthy v\<close> is \<^verbatim>\<open>v || undefined\<close>; the test \<^verbatim>\<open>!v\<close> succeeds exactly when it is
  \<open>None\<close>.
\<close>

definition truthy :: "string option \<Rightarrow> string option" where
  "truthy v = (case v of None \<Rightarrow> None | Some x \<Rightarrow> if x = [] then None else Some x)"

subsection \<open>Data\<close>

text \<open>\<^verbatim>\<open>interface UserRecord\<close> of \<^verbatim>\<open>src/types/user.ts\<close>.\<close>

record UserRecord =
  email :: string
  passwordHash :: string
  isVerified :: bool
  verificationCode :: "string option"
  resetCode :: "string option"
  walletAddress :: "string option"

text \<open>The two mails of \<^verbatim>\<open>emailService.ts\<close>: recipient and code.\<close>

datatype mail = VerificationEmail string string | ResetPasswordEmail string string

text \<open>
  The state the handlers share: the \<^verbatim>\<open>userStore\<close> map and the mails handed to the
  transporter so far. Both mail functions catch a failed delivery themselves, so a
  handler continues in the same way whether or not the mail went out.
\<close>

record state =
  userStore :: "string \<rightharpoonup> UserRecord"
  outbox :: "mail list"

text \<open>
  What the handlers import: the environment variable \<^verbatim>\<open>JWT_SECRET\<close>,
  \<^verbatim>\<open>bcrypt.hash\<close> (password, rounds, salt drawn by the call) and \<^verbatim>\<open>bcrypt.compare\<close>
  (password, hash).
\<close>

record deps =
  env_JWT_SECRET :: "string option"
  bcrypt_hash :: "string \<Rightarrow> nat \<Rightarrow> string \<Rightarrow> string"
  bcrypt_compare :: "string \<Rightarrow> string \<Rightarrow> bool"

text \<open>\<^verbatim>\<open>process.env.JWT_SECRET || 'default-secret-change-in-production'\<close>\<close>

definition JWT_SECRET :: "deps \<Rightarrow> string" where
  "JWT_SECRET d =
     (case truthy (env_JWT_SECRET d) of
        None \<Rightarrow> ''default-secret-change-in-production''
      | Some v \<Rightarrow> v)"

text \<open>
  A token, as the call \<^verbatim>\<open>jwt.sign({sub, walletAddress}, secret, {expiresIn})\<close> that
  made it.
\<close>

datatype jwt = JwtSign (jwt_sub: string) (jwt_walletAddress: "string option")
  (jwt_secret: string) (jwt_expiresIn: string)

text \<open>The JSON bodies the handlers send.\<close>

datatype body =
    ErrorBody string
  | MessageBody string
  | LoginBody (accessToken: jwt) (body_email: string) (body_walletAddress: "string option")

type_synonym response = "nat \<times> body"

text \<open>The responses of the handlers, named after the error kinds of the specification.\<close>

definition SignupInvalidInput :: response where
  "SignupInvalidInput = (400, ErrorBody ''Email and password are required'')"

definition Conflict :: response where
  "Conflict = (409, ErrorBody ''User already exists'')"

definition SignupCreated :: response where
  "SignupCreated = (201, MessageBody
     ''User created successfully. Please check your email for verification code.'')"

definition VerifyInvalidInput :: response where
  "VerifyInvalidInput = (400, ErrorBody ''Email and code are required'')"

definition NotFound :: response where
  "NotFound = (404, ErrorBody ''User not found'')"

definition AlreadyVerified :: response where
  "AlreadyVerified = (400, ErrorBody ''Email already verified'')"

definition InvalidCode :: response where
  "InvalidCode = (400, ErrorBody ''Invalid verification code'')"

definition VerifyOk :: response where
  "VerifyOk = (200, MessageBody ''Email verified successfully'')"

definition LoginInvalidInput :: response where
  "LoginInvalidInput = (400, ErrorBody ''Email and password are required'')"

definition InvalidCredentials :: response where
  "InvalidCredentials = (401, ErrorBody ''Invalid credentials'')"

definition NotVerified :: response where
  "NotVerified = (403, ErrorBody ''Email not verified. Please verify your email first.'')"

definition RequestResetInvalidInput :: response where
  "RequestResetInvalidInput = (400, ErrorBody ''Email is required'')"

definition RequestResetOk :: response where
  "RequestResetOk = (200, MessageBody
     ''If the email exists, a password reset code has been sent.'')"

definition ConfirmResetInvalidInput :: response where
  "ConfirmResetInvalidInput = (400, ErrorBody ''Email, code, and new password are required'')"

definition InvalidResetCode :: response where
  "InvalidResetCode = (400, ErrorBody ''Invalid reset code'')"

definition ConfirmResetOk :: response where
  "ConfirmResetOk = (200, MessageBody ''Password reset successfully'')"

subsection \<open>The mail service\<close>

text \<open>
  \<^verbatim>\<open>sendVerificationEmail\<close> and \<^verbatim>\<open>sendResetPasswordEmail\<close> hand one mail to the
  transporter and return, whether the delivery worked or failed: the model records the
  mail in the outbox.
\<close>

definition sendVerificationEmail :: "string \<Rightarrow> string \<Rightarrow> state \<Rightarrow> state" where
  "sendVerificationEmail to code s = s\<lparr>outbox := outbox s @ [VerificationEmail to code]\<rparr>"

definition sendResetPasswordEmail :: "string \<Rightarrow> string \<Rightarrow> state \<Rightarrow> state" where
  "sendResetPasswordEmail to code s = s\<lparr>outbox := outbox s @ [ResetPasswordEmail to code]\<rparr>"

text \<open>\<^verbatim>\<open>userStore.set(key, user)\<close>\<close>

definition userStore_set :: "string \<Rightarrow> UserRecord \<Rightarrow> state \<Rightarrow> state" where
  "userStore_set k u s = s\<lparr>userStore := (userStore s)(k \<mapsto> u)\<rparr>"

subsection \<open>The handlers\<close>

text \<open>
  \<^verbatim>\<open>POST /auth/signup\<close>. \<open>salt\<close> is the salt drawn by \<^verbatim>\<open>bcrypt.hash\<close>,
  \<open>newCode\<close> the result of \<^verbatim>\<open>generateVerificationCode()\<close>.
\<close>

definition signup ::
  "deps \<Rightarrow> string \<Rightarrow> string \<Rightarrow> state \<Rightarrow> string option \<Rightarrow> string option \<Rightarrow> string option
    \<Rightarrow> response \<times> state" where
  "signup d salt newCode s reqEmail reqPassword reqWalletAddress =
     (case (truthy reqEmail, truthy reqPassword) of
        (Some em, Some pw) \<Rightarrow>
          (let normalizedEmail = normalizeEmail em
           in if userStore s normalizedEmail \<noteq> None then (Conflict, s)
              else
                (let user = \<lparr>email = normalizedEmail,
                             passwordHash = bcrypt_hash d pw 10 salt,
                             isVerified = False,
                             verificationCode = Some newCode,
                             resetCode = None,
                             walletAddress = truthy reqWalletAddress\<rparr>;
                     s1 = userStore_set normalizedEmail user s;
                     s2 = sendVerificationEmail normalizedEmail newCode s1
                 in (SignupCreated, s2)))
      | _ \<Rightarrow> (SignupInvalidInput, s))"

text \<open>\<^verbatim>\<open>POST /auth/verify-email\<close>\<close>

definition verifyEmail ::
  "state \<Rightarrow> string option \<Rightarrow> string option \<Rightarrow> response \<times> state" where
  "verifyEmail s reqEmail reqCode =
     (case (truthy reqEmail, truthy reqCode) of
        (Some em, Some code) \<Rightarrow>
          (let normalizedEmail = normalizeEmail em
           in case userStore s normalizedEmail of
                None \<Rightarrow> (NotFound, s)
              | Some user \<Rightarrow>
                  if isVerified user then (AlreadyVerified, s)
                  else if verificationCode user \<noteq> Some code then (InvalidCode, s)
                  else (VerifyOk,
                        userStore_set normalizedEmail
                          (user\<lparr>isVerified := True, verificationCode := None\<rparr>) s))
      | _ \<Rightarrow> (VerifyInvalidInput, s))"

text \<open>\<^verbatim>\<open>POST /auth/login\<close>\<close>

definition login ::
  "deps \<Rightarrow> state \<Rightarrow> string option \<Rightarrow> string option \<Rightarrow> response \<times> state" where
  "login d s reqEmail reqPassword =
     (case (truthy reqEmail, truthy reqPassword) of
        (Some em, Some pw) \<Rightarrow>
          (let normalizedEmail = normalizeEmail em
           in case userStore s normalizedEmail of
                None \<Rightarrow> (InvalidCredentials, s)
              | Some user \<Rightarrow>
                  if \<not> isVerified user then (NotVerified, s)
                  else if \<not> bcrypt_compare d pw (passwordHash user) then (InvalidCredentials, s)
                  else
                    (let token = JwtSign (email user) (walletAddress user) (JWT_SECRET d) ''2h''
                     in ((200, LoginBody token (email user) (walletAddress user)), s)))
      | _ \<Rightarrow> (LoginInvalidInput, s))"

text \<open>
  \<^verbatim>\<open>POST /auth/request-reset\<close>. \<open>newCode\<close> is the result of
  \<^verbatim>\<open>generateVerificationCode()\<close>, which is called only when the account exists.
\<close>

definition requestReset ::
  "string \<Rightarrow> state \<Rightarrow> string option \<Rightarrow> response \<times> state" where
  "requestReset newCode s reqEmail =
     (case truthy reqEmail of
        Some em \<Rightarrow>
          (let normalizedEmail = normalizeEmail em
           in case userStore s normalizedEmail of
                None \<Rightarrow> (RequestResetOk, s)
              | Some user \<Rightarrow>
                  (let s1 = userStore_set normalizedEmail (user\<lparr>resetCode := Some newCode\<rparr>) s;
                       s2 = sendResetPasswordEmail normalizedEmail newCode s1
                   in (RequestResetOk, s2)))
      | None \<Rightarrow> (RequestResetInvalidInput, s))"

text \<open>
  \<^verbatim>\<open>POST /auth/confirm-reset\<close>. \<open>salt\<close> is the salt drawn by \<^verbatim>\<open>bcrypt.hash\<close>.
\<close>

definition confirmReset ::
  "deps \<Rightarrow> string \<Rightarrow> state \<Rightarrow> string option \<Rightarrow> string option \<Rightarrow> string option
    \<Rightarrow> response \<times> state" where
  "confirmReset d salt s reqEmail reqCode reqNewPassword =
     (case (truthy reqEmail, truthy reqCode, truthy reqNewPassword) of
        (Some em, Some code, Some newPassword) \<Rightarrow>
          (let normalizedEmail = normalizeEmail em
           in case userStore s normalizedEmail of
                None \<Rightarrow> (NotFound, s)
              | Some user \<Rightarrow>
                  if resetCode user \<noteq> Some code then (InvalidResetCode, s)
                  else (ConfirmResetOk,
                        userStore_set normalizedEmail
                          (user\<lparr>passwordHash := bcrypt_hash d newPassword 10 salt,
                                resetCode := None\<rparr>) s))
      | _ \<Rightarrow> (ConfirmResetInvalidInput, s))"

subsection \<open>Runs of requests\<close>

text \<open>
  A request together with the values the libraries draw while it is handled, and the
  state after a sequence of requests handled one after the other.
\<close>

datatype request =
    Signup string string "string option" "string option" "string option"
  | VerifyEmail "string option" "string option"
  | Login "string option" "string option"
  | RequestReset string "string option"
  | ConfirmReset string "string option" "string option" "string option"

fun handle :: "deps \<Rightarrow> request \<Rightarrow> state \<Rightarrow> response \<times> state" where
  "handle d (Signup salt newCode e p w) s = signup d salt newCode s e p w"
| "handle d (VerifyEmail e c) s = verifyEmail s e c"
| "handle d (Login e p) s = login d s e p"
| "handle d (RequestReset newCode e) s = requestReset newCode s e"
| "handle d (ConfirmReset salt e c p) s = confirmReset d salt s e c p"

fun run :: "deps \<Rightarrow> request list \<Rightarrow> state \<Rightarrow> state" where
  "run d [] s = s"
| "run d (r # rs) s = run d rs (snd (handle d r s))"

subsection \<open>Concrete instances\<close>

text \<open>
  An instance of the library interface on which the handlers can be evaluated: the
  hash is the salt, a separator and the password, and a password is accepted when it
  is what follows the separator. The secret is left to its default.
\<close>

definition stub_deps :: deps where
  "stub_deps = \<lparr>env_JWT_SECRET = None,
     bcrypt_hash = (\<lambda>pw rounds salt. salt @ ''$'' @ pw),
     bcrypt_compare = (\<lambda>pw h. dropWhile (\<lambda>c. c \<noteq> CHR ''$'') h = CHR ''$'' # pw)\<rparr>"

text \<open>The store of a server that has just started.\<close>

definition emptyState :: state where
  "emptyState = \<lparr>userStore = Map.empty, outbox = []\<rparr>"

text \<open>A store holding one account that signed up and has not verified yet.\<close>

definition demoUser :: UserRecord where
  "demoUser = \<lparr>email = ''a@x.com'', passwordHash = ''salt$pw123'', isVerified = False,
     verificationCode = Some ''123456'', resetCode = None, walletAddress = None\<rparr>"

definition demoState :: state where
  "demoState = \<lparr>userStore = [''a@x.com'' \<mapsto> demoUser], outbox = []\<rparr>"

text \<open>The same store after the account has verified its email.\<close>

definition verifiedState :: state where
  "verifiedState =
     \<lparr>userStore = [''a@x.com'' \<mapsto> demoUser\<lparr>isVerified := True, verificationCode := None\<rparr>],
      outbox = []\<rparr>"

section \<open>Properties\<close>

subsection \<open>Basic facts about the handlers\<close>

lemma truthy_simps [simp]:
  "truthy None = None"
  "truthy (Some x) = (if x = [] then None else Some x)"
  by (simp_all add: truthy_def)

lemma userStore_sendVerificationEmail [simp]:
  "userStore (sendVerificationEmail to c s) = userStore s"
  by (simp add: sendVerificationEmail_def)

lemma userStore_sendResetPasswordEmail [simp]:
  "userStore (sendResetPasswordEmail to c s) = userStore s"
  by (simp add: sendResetPasswordEmail_def)

lemma userStore_userStore_set [simp]:
  "userStore (userStore_set k u s) = (userStore s)(k \<mapsto> u)"
  by (simp add: userStore_set_def)

text \<open>
  Each handler on a request that passes its required-field check, split by whether the
  store holds an account under the normalized email.
\<close>

lemma signup_created_iff:
  "fst (signup d salt newCode s reqEmail reqPassword reqWallet) = SignupCreated \<longleftrightarrow>
     (\<exists>em pw. reqEmail = Some em \<and> em \<noteq> [] \<and> reqPassword = Some pw \<and> pw \<noteq> []
        \<and> userStore s (normalizeEmail em) = None)"
  by (cases reqEmail; cases reqPassword)
     (auto simp: signup_def Let_def SignupCreated_def Conflict_def SignupInvalidInput_def)

lemma signup_new_account:
  assumes "em \<noteq> []" "pw \<noteq> []" "userStore s (normalizeEmail em) = None"
  shows "signup d salt newCode s (Some em) (Some pw) reqWallet =
     (SignupCreated,
      sendVerificationEmail (normalizeEmail em) newCode
        (userStore_set (normalizeEmail em)
           \<lparr>email = normalizeEmail em, passwordHash = bcrypt_hash d pw 10 salt,
            isVerified = False, verificationCode = Some newCode, resetCode = None,
            walletAddress = truthy reqWallet\<rparr> s))"
  using assms by (simp add: signup_def Let_def)

lemma verifyEmail_account:
  assumes "em \<noteq> []" "code \<noteq> []" "userStore s (normalizeEmail em) = Some u"
  shows "verifyEmail s (Some em) (Some code) =
     (if isVerified u then (AlreadyVerified, s)
      else if verificationCode u \<noteq> Some code then (InvalidCode, s)
      else (VerifyOk,
            userStore_set (normalizeEmail em)
              (u\<lparr>isVerified := True, verificationCode := None\<rparr>) s))"
  using assms by (simp add: verifyEmail_def)

lemma login_account:
  assumes "em \<noteq> []" "pw \<noteq> []" "userStore s (normalizeEmail em) = Some u"
  shows "login d s (Some em) (Some pw) =
     (if \<not> isVerified u then (NotVerified, s)
      else if \<not> bcrypt_compare d pw (passwordHash u) then (InvalidCredentials, s)
      else ((200, LoginBody (JwtSign (email u) (walletAddress u) (JWT_SECRET d) ''2h'')
                    (email u) (walletAddress u)), s))"
  using assms by (simp add: login_def)

lemma login_no_account:
  assumes "em \<noteq> []" "pw \<noteq> []" "userStore s (normalizeEmail em) = None"
  shows "login d s (Some em) (Some pw) = (InvalidCredentials, s)"
  using assms by (simp add: login_def)

lemma requestReset_account:
  assumes "em \<noteq> []" "userStore s (normalizeEmail em) = Some u"
  shows "requestReset newCode s (Some em) =
     (RequestResetOk,
      sendResetPasswordEmail (normalizeEmail em) newCode
        (userStore_set (normalizeEmail em) (u\<lparr>resetCode := Some newCode\<rparr>) s))"
  using assms by (simp add: requestReset_def Let_def)

lemma requestReset_no_account:
  assumes "em \<noteq> []" "userStore s (normalizeEmail em) = None"
  shows "requestReset newCode s (Some em) = (RequestResetOk, s)"
  using assms by (simp add: requestReset_def)

lemma confirmReset_account:
  assumes "em \<noteq> []" "code \<noteq> []" "newPassword \<noteq> []"
    and "userStore s (normalizeEmail em) = Some u"
  shows "confirmReset d salt s (Some em) (Some code) (Some newPassword) =
     (if resetCode u \<noteq> Some code then (InvalidResetCode, s)
      else (ConfirmResetOk,
            userStore_set (normalizeEmail em)
              (u\<lparr>passwordHash := bcrypt_hash d newPassword 10 salt, resetCode := None\<rparr>) s))"
  using assms by (simp add: confirmReset_def)

subsection \<open>What every request preserves\<close>

text \<open>
  No handler removes an account or changes its \<open>email\<close> or \<open>walletAddress\<close>.
\<close>

lemma handle_keeps_identity:
  assumes "userStore s k = Some u"
  shows "\<exists>u'. userStore (snd (handle d r s)) k = Some u'
            \<and> email u' = email u \<and> walletAddress u' = walletAddress u"
proof (cases r)
  case (Signup salt newCode e p w)
  then show ?thesis
    using assms by (auto simp: signup_def Let_def split: option.splits)
next
  case (VerifyEmail e c)
  then show ?thesis
    using assms by (auto simp: verifyEmail_def Let_def split: option.splits)
next
  case (Login e p)
  then show ?thesis
    using assms by (auto simp: login_def Let_def split: option.splits)
next
  case (RequestReset newCode e)
  then show ?thesis
    using assms by (auto simp: requestReset_def Let_def split: option.splits)
next
  case (ConfirmReset salt e c p)
  then show ?thesis
    using assms by (auto simp: confirmReset_def Let_def split: option.splits)
qed

lemma run_keeps_identity:
  assumes "userStore s k = Some u"
  shows "\<exists>u'. userStore (run d rs s) k = Some u'
            \<and> email u' = email u \<and> walletAddress u' = walletAddress u"
  using assms
proof (induction rs arbitrary: s u)
  case Nil
  then show ?case by simp
next
  case (Cons r rs)
  from handle_keeps_identity [OF Cons.prems, of d r]
  obtain u1 where u1: "userStore (snd (handle d r s)) k = Some u1"
    "email u1 = email u" "walletAddress u1 = walletAddress u"
    by blast
  from Cons.IH [OF u1(1)] u1(2,3) show ?case
    by simp
qed

text \<open>
  The invariants of the data model: an account is stored under its own \<open>email\<close>, and
  a verified account holds no verification code. Every handler keeps them, so they
  hold in every store that a server started on the empty store can reach.
\<close>

lemma handle_keeps_record_invariant:
  assumes "userStore (snd (handle d r s)) k = Some u'"
    and "\<And>u. userStore s k = Some u \<Longrightarrow>
           email u = k \<and> (isVerified u \<longrightarrow> verificationCode u = None)"
  shows "email u' = k \<and> (isVerified u' \<longrightarrow> verificationCode u' = None)"
proof (cases r)
  case (Signup salt newCode e p w)
  then show ?thesis
    using assms
    by (cases "truthy e"; cases "truthy p")
       (auto simp: signup_def Let_def split: if_splits)
next
  case (VerifyEmail e c)
  then show ?thesis
    using assms
    by (cases "truthy e"; cases "truthy c")
       (auto simp: verifyEmail_def Let_def split: option.splits if_splits)
next
  case (Login e p)
  then show ?thesis
    using assms
    by (cases "truthy e"; cases "truthy p")
       (auto simp: login_def Let_def split: option.splits if_splits)
next
  case (RequestReset newCode e)
  then show ?thesis
    using assms
    by (cases "truthy e")
       (auto simp: requestReset_def Let_def split: option.splits if_splits)
next
  case (ConfirmReset salt e c p)
  then show ?thesis
    using assms
    by (cases "truthy e"; cases "truthy c"; cases "truthy p")
       (auto simp: confirmReset_def Let_def split: option.splits if_splits)
qed

lemma run_keeps_record_invariant:
  assumes "userStore (run d rs s) k = Some u'"
    and "\<And>u. userStore s k = Some u \<Longrightarrow>
           email u = k \<and> (isVerified u \<longrightarrow> verificationCode u = None)"
  shows "email u' = k \<and> (isVerified u' \<longrightarrow> verificationCode u' = None)"
  using assms
proof (induction rs arbitrary: s)
  case Nil
  then show ?case by simp
next
  case (Cons r rs)
  have step: "email u = k \<and> (isVerified u \<longrightarrow> verificationCode u = None)"
    if "userStore (snd (handle d r s)) k = Some u" for u
    using that Cons.prems(2) by (rule handle_keeps_record_invariant)
  from Cons.prems(1) have "userStore (run d rs (snd (handle d r s))) k = Some u'"
    by simp
  then show ?case
    using step by (rule Cons.IH)
qed

lemma reachable_record_invariant:
  assumes "userStore (run d rs emptyState) k = Some u"
  shows "email u = k \<and> (isVerified u \<longrightarrow> verificationCode u = None)"
  using assms by (rule run_keeps_record_invariant) (simp add: emptyState_def)

subsection \<open>Whitespace\<close>

lemma toLowerCase_char_whitespace:
  "isWhiteSpace c \<Longrightarrow> toLowerCase_char c = c"
  by (auto simp: isWhiteSpace_def toLowerCase_char_def Let_def)

lemma normalizeEmail_whitespace:
  assumes "list_all isWhiteSpace em"
  shows "normalizeEmail em = []"
proof -
  have lower: "toLowerCase em = em"
    using assms unfolding toLowerCase_def
    by (induction em) (simp_all add: toLowerCase_char_whitespace)
  have dropped: "dropWhile isWhiteSpace em = []"
    using assms by (simp add: list_all_iff)
  show ?thesis
    unfolding normalizeEmail_def trim_def lower dropped by simp
qed

subsection \<open>Login before verification\<close>

text \<open>
  Claim C1. Let the store hold an unverified account under the normalized email of a
  login request. Then, whatever the password field is (absent, empty, right or wrong),
  the login does not answer 200 and does not answer with the invalid-credentials
  error; and when the request carries a non-empty email and a non-empty password, so
  that it passes the required-field check, the answer is the not-verified error with
  status 403, and the state is unchanged. In particular a signup that answered 201,
  followed immediately by a login with the same email and password, is answered with
  the not-verified error.
\<close>

theorem login_unverified_is_NotVerified:
  "(userStore s (normalizeEmail em) = Some u \<and> \<not> isVerified u \<longrightarrow>
      fst (fst (login d s (Some em) reqPassword)) \<noteq> 200
      \<and> fst (login d s (Some em) reqPassword) \<noteq> InvalidCredentials
      \<and> (em \<noteq> [] \<and> pw \<noteq> [] \<longrightarrow>
           login d s (Some em) (Some pw) = (NotVerified, s) \<and> fst NotVerified = 403))
   \<and> (fst (signup d salt newCode s0 reqEmail0 reqPassword0 reqWallet0) = SignupCreated \<longrightarrow>
        fst (login d (snd (signup d salt newCode s0 reqEmail0 reqPassword0 reqWallet0))
               reqEmail0 reqPassword0) = NotVerified)"
proof (intro conjI impI)
  assume a: "userStore s (normalizeEmail em) = Some u \<and> \<not> isVerified u"
  show "fst (fst (login d s (Some em) reqPassword)) \<noteq> 200"
    using a by (cases reqPassword)
      (auto simp: login_def LoginInvalidInput_def NotVerified_def)
  show "fst (login d s (Some em) reqPassword) \<noteq> InvalidCredentials"
    using a by (cases reqPassword)
      (auto simp: login_def LoginInvalidInput_def NotVerified_def InvalidCredentials_def)
  show "login d s (Some em) (Some pw) = (NotVerified, s)" if "em \<noteq> [] \<and> pw \<noteq> []"
    using a that by (simp add: login_account)
  show "fst NotVerified = 403"
    by (simp add: NotVerified_def)
next
  let ?r = "signup d salt newCode s0 reqEmail0 reqPassword0 reqWallet0"
  assume "fst ?r = SignupCreated"
  then obtain em pw
    where req: "reqEmail0 = Some em" "em \<noteq> []" "reqPassword0 = Some pw" "pw \<noteq> []"
      and free: "userStore s0 (normalizeEmail em) = None"
    unfolding signup_created_iff by blast
  have "userStore (snd ?r) (normalizeEmail em) =
      Some \<lparr>email = normalizeEmail em, passwordHash = bcrypt_hash d pw 10 salt,
            isVerified = False, verificationCode = Some newCode, resetCode = None,
            walletAddress = truthy reqWallet0\<rparr>"
    using req free by (simp add: signup_new_account)
  then show "fst (login d (snd ?r) reqEmail0 reqPassword0) = NotVerified"
    using req by (simp add: login_account)
qed

theorem login_unverified_is_NotVerified_witness:
  "login stub_deps demoState (Some '' A@x.com'') (Some ''pw123'') = (NotVerified, demoState)
   \<and> login stub_deps demoState (Some '' A@x.com'') (Some ''other'') = (NotVerified, demoState)
   \<and> fst (login stub_deps
        (snd (signup stub_deps ''salt'' ''123456'' emptyState
                (Some ''B@x.com'') (Some ''pw'') None))
        (Some ''B@x.com'') (Some ''pw'')) = NotVerified"
proof -
  have h: "userStore demoState (normalizeEmail '' A@x.com'') = Some demoUser
      \<and> \<not> isVerified demoUser"
    by code_simp
  have g: "fst (signup stub_deps ''salt'' ''123456'' emptyState
                  (Some ''B@x.com'') (Some ''pw'') None) = SignupCreated"
    by code_simp
  show ?thesis
    using h g
      login_unverified_is_NotVerified [of demoState "'' A@x.com''" demoUser stub_deps
         "Some ''pw123''" "''pw123''"
         "''salt''" "''123456''" emptyState "Some ''B@x.com''" "Some ''pw''" None]
      login_unverified_is_NotVerified [of demoState "'' A@x.com''" demoUser stub_deps
         "Some ''other''" "''other''"
         "''salt''" "''123456''" emptyState "Some ''B@x.com''" "Some ''pw''" None]
    by simp
qed

subsection \<open>Login does not tell a missing account from a wrong password\<close>

text \<open>
  Claim C2. Take two login requests against the same store, each with a non-empty
  email and a non-empty password: the first names an email under which the store holds
  no account, the second names a verified account and carries a password that
  \<^verbatim>\<open>bcrypt.compare\<close> rejects against its hash. Both get the same answer, status 401
  with the body \<^verbatim>\<open>{error: 'Invalid credentials'}\<close>, and neither changes the state.
\<close>

theorem login_non_enumeration:
  assumes "em1 \<noteq> []" "pw1 \<noteq> []" "em2 \<noteq> []" "pw2 \<noteq> []"
    and "userStore s (normalizeEmail em1) = None"
    and "userStore s (normalizeEmail em2) = Some u" "isVerified u"
    and "\<not> bcrypt_compare d pw2 (passwordHash u)"
  shows "login d s (Some em1) (Some pw1) = (InvalidCredentials, s)
     \<and> login d s (Some em2) (Some pw2) = (InvalidCredentials, s)
     \<and> InvalidCredentials = (401, ErrorBody ''Invalid credentials'')"
  using assms by (simp add: login_no_account login_account InvalidCredentials_def)

theorem login_non_enumeration_witness:
  "login stub_deps verifiedState (Some ''nobody@x.com'') (Some ''pw'')
     = (InvalidCredentials, verifiedState)
   \<and> login stub_deps verifiedState (Some ''a@x.com'') (Some ''wrongpw'')
     = (InvalidCredentials, verifiedState)"
proof -
  let ?u = "demoUser\<lparr>isVerified := True, verificationCode := None\<rparr>"
  have h: "''nobody@x.com'' \<noteq> []" "''pw'' \<noteq> []" "''a@x.com'' \<noteq> []" "''wrongpw'' \<noteq> []"
    "userStore verifiedState (normalizeEmail ''nobody@x.com'') = None"
    "userStore verifiedState (normalizeEmail ''a@x.com'') = Some ?u"
    "isVerified ?u"
    "\<not> bcrypt_compare stub_deps ''wrongpw'' (passwordHash ?u)"
    by code_simp+
  show ?thesis
    using login_non_enumeration [OF h] by simp
qed

subsection \<open>Requesting a reset does not tell whether the account exists\<close>

text \<open>
  Claim C3. A reset request with a non-empty email is answered with status 200 and the
  body \<^verbatim>\<open>{message: 'If the email exists, a password reset code has been sent.'}\<close>,
  whatever the store holds and whatever code is generated: two such requests for the
  same email against any two stores get the same answer. When the store holds no
  account under the normalized email the state is unchanged; when it holds one, the
  state returned with the answer holds that account with the generated code as its
  \<open>resetCode\<close>.
\<close>

theorem requestReset_non_enumeration:
  assumes "em \<noteq> []"
  shows "fst (requestReset newCode s (Some em)) = RequestResetOk
     \<and> fst (requestReset newCode' s' (Some em)) = fst (requestReset newCode s (Some em))
     \<and> RequestResetOk =
         (200, MessageBody ''If the email exists, a password reset code has been sent.'')
     \<and> (userStore s (normalizeEmail em) = None \<longrightarrow> snd (requestReset newCode s (Some em)) = s)
     \<and> (\<forall>u. userStore s (normalizeEmail em) = Some u \<longrightarrow>
           userStore (snd (requestReset newCode s (Some em))) (normalizeEmail em)
             = Some (u\<lparr>resetCode := Some newCode\<rparr>))"
proof -
  have ok: "fst (requestReset c t (Some em)) = RequestResetOk" for c t
    using assms by (cases "userStore t (normalizeEmail em)")
      (simp_all add: requestReset_no_account requestReset_account)
  show ?thesis
    using assms
    by (auto simp: ok requestReset_no_account requestReset_account RequestResetOk_def)
qed

theorem requestReset_non_enumeration_witness:
  "fst (requestReset ''654321'' demoState (Some ''A@x.com'')) = RequestResetOk
   \<and> fst (requestReset ''111111'' emptyState (Some ''A@x.com'')) = RequestResetOk
   \<and> userStore (snd (requestReset ''654321'' demoState (Some ''A@x.com''))) ''a@x.com''
       = Some (demoUser\<lparr>resetCode := Some ''654321''\<rparr>)
   \<and> snd (requestReset ''111111'' emptyState (Some ''A@x.com'')) = emptyState"
proof -
  have h: "''A@x.com'' \<noteq> []" by simp
  have k: "normalizeEmail ''A@x.com'' = ''a@x.com''" by code_simp
  have a: "userStore demoState ''a@x.com'' = Some demoUser" by code_simp
  have b: "userStore emptyState ''a@x.com'' = None" by code_simp
  show ?thesis
    using requestReset_non_enumeration [OF h, of "''654321''" demoState "''111111''" emptyState]
      requestReset_non_enumeration [OF h, of "''111111''" emptyState "''111111''" emptyState]
      a b
    by (simp add: k)
qed

subsection \<open>Verifying the email\<close>

text \<open>
  Claim C4. Let the store hold, under the normalized email of the request, an account
  that is not yet verified and whose stored \<open>verificationCode\<close> is the non-empty code of
  the request (in a store the handlers produce, an account that holds a verification
  code is unverified). Then the verification is answered with status 200, and the
  store now holds the account with \<open>isVerified\<close> set and \<open>verificationCode\<close> cleared.
  Every later verification request for that account with a non-empty email and code,
  the same code included, is answered with \<^verbatim>\<open>{error: 'Email already verified'}\<close> and
  leaves the state as it is.
\<close>

theorem verifyEmail_succeeds_once:
  assumes "em \<noteq> []" "code \<noteq> []"
    and "userStore s (normalizeEmail em) = Some u"
    and "\<not> isVerified u" "verificationCode u = Some code"
  shows "fst (verifyEmail s (Some em) (Some code)) = VerifyOk
     \<and> userStore (snd (verifyEmail s (Some em) (Some code))) (normalizeEmail em)
         = Some (u\<lparr>isVerified := True, verificationCode := None\<rparr>)
     \<and> (\<forall>em' code'. em' \<noteq> [] \<and> code' \<noteq> [] \<and> normalizeEmail em' = normalizeEmail em \<longrightarrow>
           verifyEmail (snd (verifyEmail s (Some em) (Some code))) (Some em') (Some code')
             = (AlreadyVerified, snd (verifyEmail s (Some em) (Some code))))
     \<and> AlreadyVerified = (400, ErrorBody ''Email already verified'')
     \<and> VerifyOk = (200, MessageBody ''Email verified successfully'')"
proof -
  let ?s' = "userStore_set (normalizeEmail em)
               (u\<lparr>isVerified := True, verificationCode := None\<rparr>) s"
  have first: "verifyEmail s (Some em) (Some code) = (VerifyOk, ?s')"
    using assms by (simp add: verifyEmail_account)
  have stored: "userStore ?s' (normalizeEmail em)
      = Some (u\<lparr>isVerified := True, verificationCode := None\<rparr>)"
    by simp
  have second: "verifyEmail ?s' (Some em') (Some code') = (AlreadyVerified, ?s')"
    if "em' \<noteq> []" "code' \<noteq> []" "normalizeEmail em' = normalizeEmail em" for em' code'
  proof -
    have "userStore ?s' (normalizeEmail em')
        = Some (u\<lparr>isVerified := True, verificationCode := None\<rparr>)"
      using that(3) by simp
    from verifyEmail_account [OF that(1,2) this] show ?thesis by simp
  qed
  show ?thesis
    unfolding first using stored second
    by (simp add: AlreadyVerified_def VerifyOk_def)
qed

theorem verifyEmail_succeeds_once_witness:
  "fst (verifyEmail demoState (Some ''A@x.com '') (Some ''123456'')) = VerifyOk
   \<and> userStore (snd (verifyEmail demoState (Some ''A@x.com '') (Some ''123456''))) ''a@x.com''
       = Some (demoUser\<lparr>isVerified := True, verificationCode := None\<rparr>)
   \<and> fst (verifyEmail (snd (verifyEmail demoState (Some ''A@x.com '') (Some ''123456'')))
            (Some ''a@x.com'') (Some ''123456'')) = AlreadyVerified"
proof -
  have k: "normalizeEmail ''A@x.com '' = ''a@x.com''" "normalizeEmail ''a@x.com'' = ''a@x.com''"
    by code_simp+
  have h: "''A@x.com '' \<noteq> []" "''123456'' \<noteq> []"
    "userStore demoState (normalizeEmail ''A@x.com '') = Some demoUser"
    "\<not> isVerified demoUser" "verificationCode demoUser = Some ''123456''"
    by code_simp+
  have n: "''a@x.com'' \<noteq> [] \<and> ''123456'' \<noteq> []
      \<and> normalizeEmail ''a@x.com'' = normalizeEmail ''A@x.com ''"
    by (simp add: k)
  from verifyEmail_succeeds_once [OF h] n show ?thesis
    by (simp add: k)
qed

text \<open>
  Claim C5. Let the store hold an unverified account under the normalized email of the
  request. A verification request with a non-empty email and a non-empty code that is
  not the stored \<open>verificationCode\<close> is answered with status 400 and
  \<^verbatim>\<open>{error: 'Invalid verification code'}\<close>, and the state, so every field of the stored
  record, is unchanged. More generally no code field that differs from the stored
  one, be it absent or empty, is answered with a success or changes the state.
\<close>

theorem verifyEmail_wrong_code:
  assumes "userStore s (normalizeEmail em) = Some u"
    and "\<not> isVerified u"
  shows "(em \<noteq> [] \<and> code \<noteq> [] \<and> verificationCode u \<noteq> Some code \<longrightarrow>
            verifyEmail s (Some em) (Some code) = (InvalidCode, s)
            \<and> InvalidCode = (400, ErrorBody ''Invalid verification code''))
     \<and> (reqCode \<noteq> verificationCode u \<longrightarrow>
            snd (verifyEmail s (Some em) reqCode) = s
            \<and> fst (verifyEmail s (Some em) reqCode) \<noteq> VerifyOk)"
proof (intro conjI impI)
  assume "em \<noteq> [] \<and> code \<noteq> [] \<and> verificationCode u \<noteq> Some code"
  then show "verifyEmail s (Some em) (Some code) = (InvalidCode, s)"
    using assms by (simp add: verifyEmail_account)
  show "InvalidCode = (400, ErrorBody ''Invalid verification code'')"
    by (simp add: InvalidCode_def)
next
  assume ne: "reqCode \<noteq> verificationCode u"
  show "snd (verifyEmail s (Some em) reqCode) = s"
    using assms ne by (cases reqCode) (auto simp: verifyEmail_def)
  show "fst (verifyEmail s (Some em) reqCode) \<noteq> VerifyOk"
    using assms ne by (cases reqCode)
      (auto simp: verifyEmail_def VerifyInvalidInput_def VerifyOk_def InvalidCode_def)
qed

theorem verifyEmail_wrong_code_witness:
  "verifyEmail demoState (Some ''a@x.com'') (Some ''000000'') = (InvalidCode, demoState)
   \<and> userStore (snd (verifyEmail demoState (Some ''a@x.com'') (Some ''000000''))) ''a@x.com''
        = Some demoUser"
proof -
  have h: "userStore demoState (normalizeEmail ''a@x.com'') = Some demoUser"
    "\<not> isVerified demoUser"
    by code_simp+
  have g: "''a@x.com'' \<noteq> [] \<and> ''000000'' \<noteq> [] \<and> verificationCode demoUser \<noteq> Some ''000000''"
    by code_simp
  have a: "userStore demoState ''a@x.com'' = Some demoUser"
    by code_simp
  from verifyEmail_wrong_code [OF h, of "''000000''" "Some ''000000''"] g a
  show ?thesis by simp
qed

subsection \<open>Round trips\<close>

text \<open>
  Claim C6. Take a non-empty email and a non-empty password, a store that holds no
  account under the normalized email, a non-empty generated code, and let
  \<^verbatim>\<open>bcrypt.compare\<close> accept the password against the hash \<^verbatim>\<open>bcrypt.hash\<close> made of it.
  Then the signup is answered with 201 and stores the generated code as the
  \<open>verificationCode\<close>; the verification with that code is answered with 200; and the
  login is answered with 200 and a token whose \<open>sub\<close> is the normalized email (the
  email lowercased, then trimmed).
\<close>

theorem signup_verify_login_roundtrip:
  assumes "em \<noteq> []" "pw \<noteq> []"
    and "userStore s (normalizeEmail em) = None"
    and "newCode \<noteq> []"
    and "bcrypt_compare d pw (bcrypt_hash d pw 10 salt)"
  shows "let r1 = signup d salt newCode s (Some em) (Some pw) reqWallet;
             r2 = verifyEmail (snd r1) (Some em) (Some newCode);
             r3 = login d (snd r2) (Some em) (Some pw)
         in fst r1 = SignupCreated
          \<and> map_option verificationCode (userStore (snd r1) (normalizeEmail em))
              = Some (Some newCode)
          \<and> fst r2 = VerifyOk
          \<and> fst r3 = (200, LoginBody
                (JwtSign (normalizeEmail em) (truthy reqWallet) (JWT_SECRET d) ''2h'')
                (normalizeEmail em) (truthy reqWallet))
          \<and> jwt_sub (accessToken (snd (fst r3))) = trim (toLowerCase em)"
proof -
  let ?k = "normalizeEmail em"
  let ?u = "\<lparr>email = ?k, passwordHash = bcrypt_hash d pw 10 salt,
            isVerified = False, verificationCode = Some newCode, resetCode = None,
            walletAddress = truthy reqWallet\<rparr>"
  let ?s1 = "sendVerificationEmail ?k newCode (userStore_set ?k ?u s)"
  let ?v = "?u\<lparr>isVerified := True, verificationCode := None\<rparr>"
  let ?s2 = "userStore_set ?k ?v ?s1"
  have r1: "signup d salt newCode s (Some em) (Some pw) reqWallet = (SignupCreated, ?s1)"
    using assms(1-3) by (rule signup_new_account)
  have u1: "userStore ?s1 ?k = Some ?u"
    by simp
  have r2: "verifyEmail ?s1 (Some em) (Some newCode) = (VerifyOk, ?s2)"
    using verifyEmail_account [OF assms(1) assms(4) u1] by simp
  have u2: "userStore ?s2 ?k = Some ?v"
    by simp
  have r3: "login d ?s2 (Some em) (Some pw) =
      ((200, LoginBody (JwtSign ?k (truthy reqWallet) (JWT_SECRET d) ''2h'')
               ?k (truthy reqWallet)), ?s2)"
    using login_account [OF assms(1,2) u2, of d] assms(5) by simp
  show ?thesis
    unfolding Let_def r1 snd_conv fst_conv r2 r3 using u1
    by (simp add: normalizeEmail_def)
qed

theorem signup_verify_login_roundtrip_witness:
  "fst (signup stub_deps ''salt'' ''123456'' emptyState
          (Some '' Bob@X.com'') (Some ''pw123'') None) = SignupCreated
   \<and> fst (login stub_deps
        (snd (verifyEmail
           (snd (signup stub_deps ''salt'' ''123456'' emptyState
                   (Some '' Bob@X.com'') (Some ''pw123'') None))
           (Some '' Bob@X.com'') (Some ''123456'')))
        (Some '' Bob@X.com'') (Some ''pw123''))
     = (200, LoginBody (JwtSign ''bob@x.com'' None ''default-secret-change-in-production'' ''2h'')
               ''bob@x.com'' None)"
proof -
  have h: "'' Bob@X.com'' \<noteq> []" "''pw123'' \<noteq> []"
    "userStore emptyState (normalizeEmail '' Bob@X.com'') = None"
    "''123456'' \<noteq> []"
    "bcrypt_compare stub_deps ''pw123'' (bcrypt_hash stub_deps ''pw123'' 10 ''salt'')"
    by code_simp+
  have k: "normalizeEmail '' Bob@X.com'' = ''bob@x.com''"
    by code_simp
  have s: "JWT_SECRET stub_deps = ''default-secret-change-in-production''"
    by code_simp
  from signup_verify_login_roundtrip [OF h, of None] show ?thesis
    by (simp add: Let_def k s)
qed

text \<open>
  The reset flow does not look at \<open>isVerified\<close>: on an account that never verified its
  email, a confirmed reset is followed by a login with the new password that is
  answered with the not-verified error, status 403. And the old password keeps
  working when the new password is the same string.
\<close>

theorem confirmReset_login_counterexample:
  "fst (confirmReset stub_deps ''salt2''
          (snd (requestReset ''654321'' demoState (Some ''a@x.com'')))
          (Some ''a@x.com'') (Some ''654321'') (Some ''newpw'')) = ConfirmResetOk
   \<and> fst (login stub_deps
        (snd (confirmReset stub_deps ''salt2''
                (snd (requestReset ''654321'' demoState (Some ''a@x.com'')))
                (Some ''a@x.com'') (Some ''654321'') (Some ''newpw'')))
        (Some ''a@x.com'') (Some ''newpw'')) = NotVerified
   \<and> fst NotVerified = 403
   \<and> fst (confirmReset stub_deps ''salt2''
          (snd (requestReset ''654321'' verifiedState (Some ''a@x.com'')))
          (Some ''a@x.com'') (Some ''654321'') (Some ''pw123'')) = ConfirmResetOk
   \<and> fst (fst (login stub_deps
        (snd (confirmReset stub_deps ''salt2''
                (snd (requestReset ''654321'' verifiedState (Some ''a@x.com'')))
                (Some ''a@x.com'') (Some ''654321'') (Some ''pw123'')))
        (Some ''a@x.com'') (Some ''pw123''))) = 200"
  by code_simp

text \<open>
  Claim C7, amended. Let the store hold, under the normalized email of the requests, an
  account whose \<open>resetCode\<close> is the non-empty code of the request; let the emails and
  the passwords \<open>p1\<close> and \<open>p2\<close> be non-empty; let \<^verbatim>\<open>bcrypt.compare\<close> accept \<open>p2\<close>
  against the hash \<^verbatim>\<open>bcrypt.hash\<close> makes of it and reject \<open>p1\<close> against that hash.
  Then confirming the reset with \<open>p2\<close> is answered with 200 and leaves the account
  with the hash of \<open>p2\<close> as \<open>passwordHash\<close> and no \<open>resetCode\<close>. If the account is
  verified, the login with \<open>p2\<close> is then answered with 200 and the login with \<open>p1\<close>
  with the invalid-credentials error; if it is not verified, both logins are answered
  with the not-verified error.
\<close>

theorem confirmReset_then_login:
  assumes "em \<noteq> []" "code \<noteq> []" "p1 \<noteq> []" "p2 \<noteq> []"
    and "userStore s (normalizeEmail em) = Some u"
    and "resetCode u = Some code"
    and "bcrypt_compare d p2 (bcrypt_hash d p2 10 salt)"
    and "\<not> bcrypt_compare d p1 (bcrypt_hash d p2 10 salt)"
  shows "let r = confirmReset d salt s (Some em) (Some code) (Some p2)
         in fst r = ConfirmResetOk
          \<and> userStore (snd r) (normalizeEmail em)
              = Some (u\<lparr>passwordHash := bcrypt_hash d p2 10 salt, resetCode := None\<rparr>)
          \<and> (isVerified u \<longrightarrow>
               login d (snd r) (Some em) (Some p2)
                 = ((200, LoginBody (JwtSign (email u) (walletAddress u) (JWT_SECRET d) ''2h'')
                            (email u) (walletAddress u)), snd r)
               \<and> login d (snd r) (Some em) (Some p1) = (InvalidCredentials, snd r))
          \<and> (\<not> isVerified u \<longrightarrow>
               login d (snd r) (Some em) (Some p2) = (NotVerified, snd r)
               \<and> login d (snd r) (Some em) (Some p1) = (NotVerified, snd r))"
proof -
  let ?k = "normalizeEmail em"
  let ?u' = "u\<lparr>passwordHash := bcrypt_hash d p2 10 salt, resetCode := None\<rparr>"
  let ?s' = "userStore_set ?k ?u' s"
  have r: "confirmReset d salt s (Some em) (Some code) (Some p2) = (ConfirmResetOk, ?s')"
    using confirmReset_account [OF assms(1,2,4,5), of d salt] assms(6) by simp
  have u': "userStore ?s' ?k = Some ?u'"
    by simp
  note new = login_account [OF assms(1,4) u', of d]
  note old = login_account [OF assms(1,3) u', of d]
  have verified: "login d ?s' (Some em) (Some p2)
        = ((200, LoginBody (JwtSign (email u) (walletAddress u) (JWT_SECRET d) ''2h'')
                   (email u) (walletAddress u)), ?s')
      \<and> login d ?s' (Some em) (Some p1) = (InvalidCredentials, ?s')" if "isVerified u"
    using new old assms(7,8) that by simp
  have unverified: "login d ?s' (Some em) (Some p2) = (NotVerified, ?s')
      \<and> login d ?s' (Some em) (Some p1) = (NotVerified, ?s')" if "\<not> isVerified u"
    using new old that by simp
  show ?thesis
    unfolding Let_def r snd_conv fst_conv using u' verified unverified by blast
qed

theorem confirmReset_then_login_witness:
  "fst (confirmReset stub_deps ''salt2''
          (snd (requestReset ''654321'' verifiedState (Some ''a@x.com'')))
          (Some ''a@x.com'') (Some ''654321'') (Some ''newpw'')) = ConfirmResetOk
   \<and> fst (login stub_deps
        (snd (confirmReset stub_deps ''salt2''
                (snd (requestReset ''654321'' verifiedState (Some ''a@x.com'')))
                (Some ''a@x.com'') (Some ''654321'') (Some ''newpw'')))
        (Some ''a@x.com'') (Some ''pw123'')) = InvalidCredentials
   \<and> fst (fst (login stub_deps
        (snd (confirmReset stub_deps ''salt2''
                (snd (requestReset ''654321'' verifiedState (Some ''a@x.com'')))
                (Some ''a@x.com'') (Some ''654321'') (Some ''newpw'')))
        (Some ''a@x.com'') (Some ''newpw''))) = 200"
proof -
  let ?s = "snd (requestReset ''654321'' verifiedState (Some ''a@x.com''))"
  let ?u = "demoUser\<lparr>isVerified := True, verificationCode := None,
              resetCode := Some ''654321''\<rparr>"
  have h: "''a@x.com'' \<noteq> []" "''654321'' \<noteq> []" "''pw123'' \<noteq> []" "''newpw'' \<noteq> []"
    "userStore ?s (normalizeEmail ''a@x.com'') = Some ?u"
    "resetCode ?u = Some ''654321''"
    "bcrypt_compare stub_deps ''newpw'' (bcrypt_hash stub_deps ''newpw'' 10 ''salt2'')"
    "\<not> bcrypt_compare stub_deps ''pw123'' (bcrypt_hash stub_deps ''newpw'' 10 ''salt2'')"
    by code_simp+
  have v: "isVerified ?u" by code_simp
  from confirmReset_then_login [OF h] v show ?thesis
    by (simp add: Let_def)
qed

subsection \<open>A second reset request replaces the pending code\<close>

text \<open>
  Claim C8. Let the store hold an account under the normalized email, and let two reset
  requests for it generate \<open>code1\<close> and then \<open>code2\<close>. Afterwards the account's
  \<open>resetCode\<close> is \<open>code2\<close>; with a non-empty new password, confirming with \<open>code2\<close>
  (a non-empty string) is answered with 200, and confirming with \<open>code1\<close>, when it is
  a non-empty string other than \<open>code2\<close>, is answered with status 400 and
  \<^verbatim>\<open>{error: 'Invalid reset code'}\<close> and leaves the state as it is.
\<close>

theorem requestReset_twice:
  assumes "em \<noteq> []" "newPassword \<noteq> []"
    and "userStore s (normalizeEmail em) = Some u"
    and "code2 \<noteq> []"
  shows "let s1 = snd (requestReset code1 s (Some em));
             s2 = snd (requestReset code2 s1 (Some em))
         in userStore s2 (normalizeEmail em) = Some (u\<lparr>resetCode := Some code2\<rparr>)
          \<and> fst (confirmReset d salt s2 (Some em) (Some code2) (Some newPassword))
              = ConfirmResetOk
          \<and> (code1 \<noteq> [] \<and> code1 \<noteq> code2 \<longrightarrow>
               confirmReset d salt s2 (Some em) (Some code1) (Some newPassword)
                 = (InvalidResetCode, s2)
               \<and> InvalidResetCode = (400, ErrorBody ''Invalid reset code''))"
proof -
  let ?k = "normalizeEmail em"
  let ?s1 = "sendResetPasswordEmail ?k code1
               (userStore_set ?k (u\<lparr>resetCode := Some code1\<rparr>) s)"
  let ?s2 = "sendResetPasswordEmail ?k code2
               (userStore_set ?k (u\<lparr>resetCode := Some code1, resetCode := Some code2\<rparr>) ?s1)"
  have r1: "requestReset code1 s (Some em) = (RequestResetOk, ?s1)"
    using assms(1,3) by (rule requestReset_account)
  have u1: "userStore ?s1 ?k = Some (u\<lparr>resetCode := Some code1\<rparr>)"
    by simp
  have r2: "requestReset code2 ?s1 (Some em) = (RequestResetOk, ?s2)"
    using assms(1) u1 by (rule requestReset_account)
  have u2: "userStore ?s2 ?k = Some (u\<lparr>resetCode := Some code2\<rparr>)"
    by simp
  have ok: "fst (confirmReset d salt ?s2 (Some em) (Some code2) (Some newPassword))
      = ConfirmResetOk"
    using confirmReset_account [OF assms(1) assms(4) assms(2) u2, of d salt] by simp
  have rej: "confirmReset d salt ?s2 (Some em) (Some code1) (Some newPassword)
      = (InvalidResetCode, ?s2)" if "code1 \<noteq> []" "code1 \<noteq> code2"
    using confirmReset_account [OF assms(1) that(1) assms(2) u2, of d salt] that(2) by simp
  show ?thesis
    unfolding Let_def r1 r2 snd_conv using u2 ok rej
    by (simp add: InvalidResetCode_def)
qed

theorem requestReset_twice_witness:
  "fst (confirmReset stub_deps ''salt2''
          (snd (requestReset ''222222''
                  (snd (requestReset ''111111'' demoState (Some ''a@x.com'')))
                  (Some ''a@x.com'')))
          (Some ''a@x.com'') (Some ''222222'') (Some ''newpw'')) = ConfirmResetOk
   \<and> fst (confirmReset stub_deps ''salt2''
          (snd (requestReset ''222222''
                  (snd (requestReset ''111111'' demoState (Some ''a@x.com'')))
                  (Some ''a@x.com'')))
          (Some ''a@x.com'') (Some ''111111'') (Some ''newpw'')) = InvalidResetCode"
proof -
  have h: "''a@x.com'' \<noteq> []" "''newpw'' \<noteq> []"
    "userStore demoState (normalizeEmail ''a@x.com'') = Some demoUser"
    "''222222'' \<noteq> []"
    by code_simp+
  have g: "''111111'' \<noteq> [] \<and> ''111111'' \<noteq> ''222222''"
    by simp
  from requestReset_twice [OF h, of "''111111''" stub_deps "''salt2''"] g show ?thesis
    by (simp add: Let_def)
qed

subsection \<open>The wallet address\<close>

text \<open>
  \<^verbatim>\<open>walletAddress || undefined\<close> turns an empty wallet address into an absent one: a
  signup that supplies the empty string stores no wallet address, and the login
  answers without one.
\<close>

theorem walletAddress_empty_counterexample:
  "map_option walletAddress
     (userStore (snd (signup stub_deps ''salt'' ''123456'' emptyState
                        (Some ''a@x.com'') (Some ''pw123'') (Some '''')))
        ''a@x.com'') = Some None
   \<and> fst (login stub_deps
        (snd (verifyEmail
           (snd (signup stub_deps ''salt'' ''123456'' emptyState
                   (Some ''a@x.com'') (Some ''pw123'') (Some '''')))
           (Some ''a@x.com'') (Some ''123456'')))
        (Some ''a@x.com'') (Some ''pw123''))
     = (200, LoginBody (JwtSign ''a@x.com'' None ''default-secret-change-in-production'' ''2h'')
               ''a@x.com'' None)"
  by code_simp

text \<open>
  Claim C9, amended. When a signup that supplies a non-empty \<open>walletAddress\<close> string
  is answered with 201, the stored account holds exactly that string. It still holds
  it after any sequence of further requests, and every later login for that account
  that is answered with 200 returns the string unchanged, both in the claims of the
  token and in the \<open>walletAddress\<close> field of the body.
\<close>

theorem walletAddress_passthrough:
  assumes "w \<noteq> []"
    and "fst (signup d salt newCode s reqEmail reqPassword (Some w)) = SignupCreated"
    and "reqEmail = Some em"
  shows "let s1 = snd (signup d salt newCode s reqEmail reqPassword (Some w));
             s2 = run d rs s1
         in map_option walletAddress (userStore s1 (normalizeEmail em)) = Some (Some w)
          \<and> map_option walletAddress (userStore s2 (normalizeEmail em)) = Some (Some w)
          \<and> (\<forall>em' reqPassword'.
                normalizeEmail em' = normalizeEmail em
                \<and> fst (fst (login d s2 (Some em') reqPassword')) = 200 \<longrightarrow>
                snd (fst (login d s2 (Some em') reqPassword'))
                  = LoginBody (JwtSign (normalizeEmail em) (Some w) (JWT_SECRET d) ''2h'')
                      (normalizeEmail em) (Some w))"
proof -
  let ?k = "normalizeEmail em"
  let ?r = "signup d salt newCode s reqEmail reqPassword (Some w)"
  from assms(2,3) obtain pw
    where req: "em \<noteq> []" "reqPassword = Some pw" "pw \<noteq> []"
      and free: "userStore s ?k = None"
    unfolding signup_created_iff by auto
  let ?u = "\<lparr>email = ?k, passwordHash = bcrypt_hash d pw 10 salt,
            isVerified = False, verificationCode = Some newCode, resetCode = None,
            walletAddress = Some w\<rparr>"
  have u1: "userStore (snd ?r) ?k = Some ?u"
    using req free assms(1,3) by (simp add: signup_new_account)
  from run_keeps_identity [OF u1, of d rs]
  obtain u2 where u2: "userStore (run d rs (snd ?r)) ?k = Some u2"
    "email u2 = ?k" "walletAddress u2 = Some w"
    by auto
  have body: "snd (fst (login d (run d rs (snd ?r)) (Some em') reqPassword'))
      = LoginBody (JwtSign ?k (Some w) (JWT_SECRET d) ''2h'') ?k (Some w)"
    if same: "normalizeEmail em' = ?k"
      and ok: "fst (fst (login d (run d rs (snd ?r)) (Some em') reqPassword')) = 200"
    for em' reqPassword'
  proof -
    have "userStore (run d rs (snd ?r)) (normalizeEmail em') = Some u2"
      using u2(1) same by simp
    then show ?thesis
      using ok u2(2,3)
      by (cases reqPassword')
        (auto simp: login_def Let_def LoginInvalidInput_def NotVerified_def
           InvalidCredentials_def split: if_splits)
  qed
  show ?thesis
    unfolding Let_def using u1 u2 body by simp
qed

theorem walletAddress_passthrough_witness:
  "map_option walletAddress
     (userStore (snd (signup stub_deps ''salt'' ''123456'' emptyState
                        (Some ''a@x.com'') (Some ''pw123'') (Some ''0xabcdef'')))
        ''a@x.com'') = Some (Some ''0xabcdef'')
   \<and> snd (fst (login stub_deps
        (run stub_deps [VerifyEmail (Some ''a@x.com'') (Some ''123456'')]
           (snd (signup stub_deps ''salt'' ''123456'' emptyState
                   (Some ''a@x.com'') (Some ''pw123'') (Some ''0xabcdef''))))
        (Some ''a@x.com'') (Some ''pw123'')))
     = LoginBody (JwtSign ''a@x.com'' (Some ''0xabcdef'')
                    ''default-secret-change-in-production'' ''2h'')
         ''a@x.com'' (Some ''0xabcdef'')"
proof -
  let ?rs = "[VerifyEmail (Some ''a@x.com'') (Some ''123456'')]"
  have h: "''0xabcdef'' \<noteq> []"
    "fst (signup stub_deps ''salt'' ''123456'' emptyState
            (Some ''a@x.com'') (Some ''pw123'') (Some ''0xabcdef'')) = SignupCreated"
    "Some ''a@x.com'' = Some ''a@x.com''"
    by code_simp+
  have k: "normalizeEmail ''a@x.com'' = ''a@x.com''"
    by code_simp
  have ok: "fst (fst (login stub_deps
        (run stub_deps ?rs
           (snd (signup stub_deps ''salt'' ''123456'' emptyState
                   (Some ''a@x.com'') (Some ''pw123'') (Some ''0xabcdef''))))
        (Some ''a@x.com'') (Some ''pw123''))) = 200"
    by code_simp
  have s: "JWT_SECRET stub_deps = ''default-secret-change-in-production''"
    by code_simp
  note t = walletAddress_passthrough [OF h, of ?rs, unfolded Let_def]
  have stored: "map_option walletAddress
     (userStore (snd (signup stub_deps ''salt'' ''123456'' emptyState
                        (Some ''a@x.com'') (Some ''pw123'') (Some ''0xabcdef'')))
        ''a@x.com'') = Some (Some ''0xabcdef'')"
    using t by (simp add: k)
  from t [THEN conjunct2, THEN conjunct2, rule_format, of "''a@x.com''" "Some ''pw123''"]
    ok stored
  show ?thesis
    by (simp add: k s)
qed

subsection \<open>Signing up with an email of whitespace\<close>

text \<open>
  Claim C10. The required-field check of the signup looks at the email as sent. For an
  email that is non-empty and consists of whitespace only, with a non-empty password,
  the signup is not answered with the required-field error; the normalized email is
  the empty string; and when the store holds no account under the empty string, the
  signup is answered with 201 and stores an account whose key and \<open>email\<close> are the
  empty string. Every later request that carries a non-empty whitespace-only email,
  the same or another, works on that account: a signup is answered with the conflict
  error, a login with the not-verified error, a verification with the stored code
  verifies it, a reset request stores its code on it, and a confirmation with a code
  it does not hold is answered with the invalid-code error of an existing account.
\<close>

theorem signup_whitespace_email:
  assumes "em \<noteq> []" "list_all isWhiteSpace em" "pw \<noteq> []"
  shows "normalizeEmail em = []
     \<and> fst (signup d salt newCode s (Some em) (Some pw) reqWallet) \<noteq> SignupInvalidInput
     \<and> (userStore s [] = None \<longrightarrow>
          (let s1 = snd (signup d salt newCode s (Some em) (Some pw) reqWallet);
               u = \<lparr>email = [], passwordHash = bcrypt_hash d pw 10 salt,
                     isVerified = False, verificationCode = Some newCode, resetCode = None,
                     walletAddress = truthy reqWallet\<rparr>
           in fst (signup d salt newCode s (Some em) (Some pw) reqWallet) = SignupCreated
            \<and> userStore s1 [] = Some u
            \<and> (\<forall>em'. em' \<noteq> [] \<and> list_all isWhiteSpace em' \<longrightarrow>
                  fst (signup d salt' newCode' s1 (Some em') (Some pw) reqWallet') = Conflict
                  \<and> fst (login d s1 (Some em') (Some pw)) = NotVerified
                  \<and> (newCode \<noteq> [] \<longrightarrow>
                        verifyEmail s1 (Some em') (Some newCode)
                          = (VerifyOk,
                             userStore_set [] (u\<lparr>isVerified := True, verificationCode := None\<rparr>) s1))
                  \<and> userStore (snd (requestReset newCode' s1 (Some em'))) []
                        = Some (u\<lparr>resetCode := Some newCode'\<rparr>)
                  \<and> fst (confirmReset d salt' s1 (Some em') (Some ''000000'') (Some pw))
                        = InvalidResetCode)))"
proof -
  let ?r = "signup d salt newCode s (Some em) (Some pw) reqWallet"
  let ?u = "\<lparr>email = [], passwordHash = bcrypt_hash d pw 10 salt,
             isVerified = False, verificationCode = Some newCode, resetCode = None,
             walletAddress = truthy reqWallet\<rparr>"
  have k: "normalizeEmail em = []"
    using assms(2) by (rule normalizeEmail_whitespace)
  have notInvalid: "fst ?r \<noteq> SignupInvalidInput"
    using assms(1,3)
    by (simp add: signup_def Let_def SignupInvalidInput_def Conflict_def SignupCreated_def)
  have later: "fst ?r = SignupCreated \<and> userStore (snd ?r) [] = Some ?u
      \<and> (\<forall>em'. em' \<noteq> [] \<and> list_all isWhiteSpace em' \<longrightarrow>
            fst (signup d salt' newCode' (snd ?r) (Some em') (Some pw) reqWallet') = Conflict
            \<and> fst (login d (snd ?r) (Some em') (Some pw)) = NotVerified
            \<and> (newCode \<noteq> [] \<longrightarrow>
                  verifyEmail (snd ?r) (Some em') (Some newCode)
                    = (VerifyOk,
                       userStore_set [] (?u\<lparr>isVerified := True, verificationCode := None\<rparr>)
                         (snd ?r)))
            \<and> userStore (snd (requestReset newCode' (snd ?r) (Some em'))) []
                  = Some (?u\<lparr>resetCode := Some newCode'\<rparr>)
            \<and> fst (confirmReset d salt' (snd ?r) (Some em') (Some ''000000'') (Some pw))
                  = InvalidResetCode)"
    if free: "userStore s [] = None"
  proof (intro conjI allI impI)
    have r: "?r = (SignupCreated,
        sendVerificationEmail [] newCode (userStore_set [] ?u s))"
      using signup_new_account [OF assms(1,3), of s d salt newCode reqWallet] free
      by (simp add: k)
    show "fst ?r = SignupCreated"
      by (simp add: r)
    show stored: "userStore (snd ?r) [] = Some ?u"
      by (simp add: r)
    fix em' :: string
    assume "em' \<noteq> [] \<and> list_all isWhiteSpace em'"
    then have ne: "em' \<noteq> []" and k': "normalizeEmail em' = []"
      by (simp_all add: normalizeEmail_whitespace)
    have stored': "userStore (snd ?r) (normalizeEmail em') = Some ?u"
      using stored by (simp add: k')
    show "fst (signup d salt' newCode' (snd ?r) (Some em') (Some pw) reqWallet') = Conflict"
      using ne assms(3) stored' by (simp add: signup_def Let_def)
    show "fst (login d (snd ?r) (Some em') (Some pw)) = NotVerified"
      using login_account [OF ne assms(3) stored', of d] by simp
    show "verifyEmail (snd ?r) (Some em') (Some newCode)
        = (VerifyOk,
           userStore_set [] (?u\<lparr>isVerified := True, verificationCode := None\<rparr>) (snd ?r))"
      if "newCode \<noteq> []"
      using verifyEmail_account [OF ne that stored'] by (simp add: k')
    show "userStore (snd (requestReset newCode' (snd ?r) (Some em'))) []
        = Some (?u\<lparr>resetCode := Some newCode'\<rparr>)"
      using requestReset_account [OF ne stored', of newCode'] by (simp add: k')
    show "fst (confirmReset d salt' (snd ?r) (Some em') (Some ''000000'') (Some pw))
        = InvalidResetCode"
      using confirmReset_account [OF ne _ assms(3) stored', of "''000000''" d salt'] by simp
  qed
  show ?thesis
    unfolding Let_def using k notInvalid later by blast
qed

theorem signup_whitespace_email_witness:
  "normalizeEmail [CHR '' '', CHR 0x09, CHR '' ''] = []
   \<and> fst (signup stub_deps ''salt'' ''123456'' emptyState
            (Some [CHR '' '', CHR 0x09, CHR '' '']) (Some ''pw123'') None) = SignupCreated
   \<and> fst (login stub_deps
        (snd (signup stub_deps ''salt'' ''123456'' emptyState
            (Some [CHR '' '', CHR 0x09, CHR '' '']) (Some ''pw123'') None))
        (Some '' '') (Some ''pw123'')) = NotVerified"
proof -
  have h: "[CHR '' '', CHR 0x09, CHR '' ''] \<noteq> []"
    "list_all isWhiteSpace [CHR '' '', CHR 0x09, CHR '' '']"
    "''pw123'' \<noteq> []"
    by code_simp+
  have free: "userStore emptyState [] = None"
    by code_simp
  have w: "'' '' \<noteq> [] \<and> list_all isWhiteSpace '' ''"
    by code_simp
  note t = signup_whitespace_email [OF h, of stub_deps "''salt''" "''123456''" emptyState None,
      unfolded Let_def]
  from t [THEN conjunct2, THEN conjunct2, rule_format, OF free]
  have c: "fst (signup stub_deps ''salt'' ''123456'' emptyState
            (Some [CHR '' '', CHR 0x09, CHR '' '']) (Some ''pw123'') None) = SignupCreated"
    and l: "\<forall>em'. em' \<noteq> [] \<and> list_all isWhiteSpace em' \<longrightarrow>
        fst (login stub_deps
          (snd (signup stub_deps ''salt'' ''123456'' emptyState
              (Some [CHR '' '', CHR 0x09, CHR '' '']) (Some ''pw123'') None))
          (Some em') (Some ''pw123'')) = NotVerified"
    by blast+
  from t c l [rule_format, OF w] show ?thesis
    by simp
qed

end
